theory Spec2Isabelle
  imports Main
begin

section \<open>Go library functions used by ricer\<close>

text \<open>
  Go strings are byte sequences, so a Go string is a \<^typ>\<open>string\<close> here. The functions
  of this section are the ones \<^verbatim>\<open>ricer.go\<close> calls from the packages
  \<^verbatim>\<open>strings\<close>, \<^verbatim>\<open>path\<close> and \<^verbatim>\<open>path/filepath\<close> (Unix separator);
  each follows the loop of the library function it stands for.
\<close>

subsection \<open>strings\<close>

definition strings_HasSuffix :: "string \<Rightarrow> string \<Rightarrow> bool" where
  "strings_HasSuffix s suffix =
     (length s \<ge> length suffix \<and> drop (length s - length suffix) s = suffix)"

definition strings_TrimSuffix :: "string \<Rightarrow> string \<Rightarrow> string" where
  "strings_TrimSuffix s suffix =
     (if strings_HasSuffix s suffix then take (length s - length suffix) s else s)"

subsection \<open>path/filepath\<close>

definition IsPathSeparator :: "char \<Rightarrow> bool" where
  "IsPathSeparator c = (c = CHR ''/'')"

text \<open>
  \<^verbatim>\<open>filepath.Ext\<close> walks backwards from the end of the path until a separator; the first
  dot it meets starts the extension. \<open>ext_scan\<close> is that walk over the reversed path, with
  the bytes already passed in \<open>acc\<close>.
\<close>

fun ext_scan :: "string \<Rightarrow> string \<Rightarrow> string" where
  "ext_scan [] acc = []"
| "ext_scan (c # cs) acc =
     (if IsPathSeparator c then []
      else if c = CHR ''.'' then c # acc
      else ext_scan cs (c # acc))"

definition filepath_Ext :: "string \<Rightarrow> string" where
  "filepath_Ext path = ext_scan (rev path) []"

text \<open>
  \<^verbatim>\<open>filepath.Base\<close>: the empty path gives a dot; trailing separators are stripped; the
  last element is what follows the last separator left; a path of separators only gives
  one separator.
\<close>

definition filepath_Base :: "string \<Rightarrow> string" where
  "filepath_Base path =
     (if path = [] then ''.''
      else
        let p1 = rev (dropWhile IsPathSeparator (rev path));
            p2 = rev (takeWhile (\<lambda>c. \<not> IsPathSeparator c) (rev p1))
        in if p2 = [] then ''/'' else p2)"

subsection \<open>path\<close>

text \<open>
  \<^verbatim>\<open>path.Clean\<close> reads the path element by element and writes into a buffer \<open>out\<close>;
  \<open>dotdot\<close> is the index in the buffer below which a \<^verbatim>\<open>..\<close> element must not
  backtrack. The four branches are those of the library's \<^verbatim>\<open>switch\<close>: an empty
  element, a \<^verbatim>\<open>.\<close> element, a \<^verbatim>\<open>..\<close> element, a real element.
\<close>

function clean_loop :: "bool \<Rightarrow> string \<Rightarrow> string \<Rightarrow> nat \<Rightarrow> string" where
  "clean_loop rooted [] out dotdot = out"
| "clean_loop rooted (c # rest) out dotdot =
     (if c = CHR ''/'' then clean_loop rooted rest out dotdot
      else if c = CHR ''.'' \<and> (rest = [] \<or> hd rest = CHR ''/'') then
        clean_loop rooted rest out dotdot
      else if c = CHR ''.'' \<and> rest \<noteq> [] \<and> hd rest = CHR ''.''
              \<and> (tl rest = [] \<or> hd (tl rest) = CHR ''/'') then
        (if length out > dotdot then
           clean_loop rooted (tl rest)
             (take dotdot out
                @ rev (tl (dropWhile (\<lambda>x. x \<noteq> CHR ''/'') (rev (drop dotdot out)))))
             dotdot
         else if rooted then clean_loop rooted (tl rest) out dotdot
         else
           (let out' = (if length out > 0 then out @ ''/'' else out) @ ''..''
            in clean_loop rooted (tl rest) out' (length out')))
      else
        (let out' = (if (rooted \<and> length out \<noteq> 1) \<or> (\<not> rooted \<and> length out \<noteq> 0)
                     then out @ ''/'' else out)
         in clean_loop rooted (dropWhile (\<lambda>x. x \<noteq> CHR ''/'') rest)
              (out' @ c # takeWhile (\<lambda>x. x \<noteq> CHR ''/'') rest) dotdot))"
  by pat_completeness auto
termination
  by (relation "measure (\<lambda>(r, p, out, d). length p)")
     (auto simp: less_Suc_eq_le length_dropWhile_le)

definition path_Clean :: "string \<Rightarrow> string" where
  "path_Clean path =
     (if path = [] then ''.''
      else
        let rooted = (hd path = CHR ''/'');
            out = (if rooted then clean_loop True (tl path) ''/'' 1
                   else clean_loop False path [] 0)
        in if out = [] then ''.'' else out)"

text \<open>\<^verbatim>\<open>strings.Join(elems, "/")\<close>.\<close>

fun join_sep :: "string list \<Rightarrow> string" where
  "join_sep [] = []"
| "join_sep [e] = e"
| "join_sep (e # es) = e @ ''/'' @ join_sep es"

text \<open>
  \<^verbatim>\<open>path.Join\<close>: leading empty elements are ignored, the rest is joined with slashes
  and cleaned; all elements empty gives the empty string.
\<close>

fun path_Join :: "string list \<Rightarrow> string" where
  "path_Join [] = []"
| "path_Join (e # es) = (if e = [] then path_Join es else path_Clean (join_sep (e # es)))"

text \<open>\<^verbatim>\<open>path.Split\<close> cuts after the last slash; \<^verbatim>\<open>path.Dir\<close> cleans the first half.\<close>

definition path_Split :: "string \<Rightarrow> string \<times> string" where
  "path_Split path =
     (rev (dropWhile (\<lambda>c. c \<noteq> CHR ''/'') (rev path)),
      rev (takeWhile (\<lambda>c. c \<noteq> CHR ''/'') (rev path)))"

definition path_Dir :: "string \<Rightarrow> string" where
  "path_Dir path = path_Clean (fst (path_Split path))"

section \<open>The world ricer runs in\<close>

text \<open>A Go \<^verbatim>\<open>error\<close> value, with the message \<^verbatim>\<open>Error()\<close> returns.\<close>

datatype error = Err string

fun Error :: "error \<Rightarrow> string" where
  "Error (Err msg) = msg"

text \<open>
  The file system maps a cleaned path to what is there: a directory, or a file with its
  bytes. The root and the working directory always exist.
\<close>

datatype node = Dir | File string

type_synonym filesystem = "string \<rightharpoonup> node"

definition lookup :: "filesystem \<Rightarrow> string \<Rightarrow> node option" where
  "lookup fsys k = (if k = ''/'' \<or> k = ''.'' then Some Dir else fsys k)"

definition os_Stat :: "filesystem \<Rightarrow> string \<Rightarrow> node option" where
  "os_Stat fsys p = lookup fsys (path_Clean p)"

text \<open>
  The directories \<^verbatim>\<open>os.MkdirAll\<close> has to make sure of for a path: every prefix of the
  cleaned path that ends before a slash, and the path itself.
\<close>

definition dir_chain :: "string \<Rightarrow> string list" where
  "dir_chain p =
     (let k = path_Clean p
      in if k = ''/'' \<or> k = ''.'' then []
         else [take i k. i \<leftarrow> [1..<length k], k ! i = CHR ''/''] @ [k])"

definition is_file :: "node option \<Rightarrow> bool" where
  "is_file n = (case n of Some (File _) \<Rightarrow> True | _ \<Rightarrow> False)"

text \<open>
  \<^verbatim>\<open>os.MkdirAll\<close>: creates a directory named path, along with any necessary parents;
  a path that is already a directory is left alone; a file standing where a directory
  is needed is an error, and then nothing is created.
\<close>

definition os_MkdirAll :: "string \<Rightarrow> filesystem \<Rightarrow> error option \<times> filesystem" where
  "os_MkdirAll p fsys =
     (if list_ex (\<lambda>d. is_file (lookup fsys d)) (dir_chain p)
      then (Some (Err (''mkdir '' @ p @ '': not a directory'')), fsys)
      else (None, fold (\<lambda>d m. m(d \<mapsto> Dir)) (dir_chain p) fsys))"

text \<open>
  \<^verbatim>\<open>os.Create\<close>: creates or truncates the named file. It fails on a directory, and when
  the parent directory is missing.
\<close>

definition os_Create :: "string \<Rightarrow> filesystem \<Rightarrow> error option \<times> filesystem" where
  "os_Create name fsys =
     (let k = path_Clean name
      in if lookup fsys k = Some Dir
         then (Some (Err (''open '' @ name @ '': is a directory'')), fsys)
         else if lookup fsys (path_Dir k) = Some Dir
         then (None, fsys(k \<mapsto> File []))
         else (Some (Err (''open '' @ name @ '': no such file or directory'')), fsys))"

text \<open>
  A configuration value as viper hands it out: a scalar in the rendering
  \<^verbatim>\<open>cast.ToString\<close> gives it, or a nested mapping.
\<close>

datatype cfg_value = CStr string | CMap "(string \<times> cfg_value) list"

type_synonym config_store = "string \<rightharpoonup> cfg_value"

text \<open>
  What \<^verbatim>\<open>viper.ReadInConfig\<close> reads: the file set by \<^verbatim>\<open>SetConfigFile\<close>, or a file
  of the name set by \<^verbatim>\<open>SetConfigName\<close> in the directory given to \<^verbatim>\<open>AddConfigPath\<close>.
\<close>

datatype config_source = ConfigFile string | ConfigSearch string string

text \<open>
  The state the program changes: the file system, what was printed on standard output
  (one entry for each call of \<^verbatim>\<open>fmt.Printf\<close> or \<^verbatim>\<open>fmt.Println\<close>), and viper's
  process-wide store, keyed by dotted path.
\<close>

record world =
  fs :: filesystem
  stdout :: "string list"
  viper :: config_store

text \<open>
  What the program only reads or calls, taken as parameters: the environment variables,
  the result of \<^verbatim>\<open>user.Current\<close> (the home directory, or an error), viper's
  configuration reader, \<^verbatim>\<open>filepath.Glob\<close> (matches and error, as Go returns them), and
  the template engine of \<^verbatim>\<open>html/template\<close>: the parser on a file's bytes, and
  execution, which gives the bytes written to the output and the error, if any.
\<close>

record 't sys =
  getenv :: "string \<Rightarrow> string"
  user_Current :: "error + string"
  ReadInConfig :: "config_source \<Rightarrow> filesystem \<Rightarrow> error + config_store"
  Glob :: "string \<Rightarrow> filesystem \<Rightarrow> string list \<times> error option"
  template_Parse :: "string \<Rightarrow> 't option"
  template_Execute :: "'t \<Rightarrow> (string \<times> cfg_value) list \<Rightarrow> string \<times> error option"

text \<open>\<^verbatim>\<open>viper.GetString\<close>: the string at the key; the zero value when there is none.\<close>

definition viper_GetString :: "world \<Rightarrow> string \<Rightarrow> string" where
  "viper_GetString w key = (case viper w key of Some (CStr s) \<Rightarrow> s | _ \<Rightarrow> [])"

text \<open>\<^verbatim>\<open>viper.GetStringMap\<close>: the mapping at the key; an empty mapping when there is none.\<close>

definition viper_GetStringMap :: "world \<Rightarrow> string \<Rightarrow> (string \<times> cfg_value) list" where
  "viper_GetStringMap w key = (case viper w key of Some (CMap m) \<Rightarrow> m | _ \<Rightarrow> [])"

definition viper_ReadInConfig :: "'t sys \<Rightarrow> config_source \<Rightarrow> world \<Rightarrow> error option \<times> world" where
  "viper_ReadInConfig sys src w =
     (case ReadInConfig sys src (fs w) of
        Inl err \<Rightarrow> (Some err, w)
      | Inr store \<Rightarrow> (None, w\<lparr>viper := store\<rparr>))"

text \<open>\<^verbatim>\<open>template.ParseFiles\<close> on one file: reads the file and parses its bytes.\<close>

definition template_ParseFiles :: "'t sys \<Rightarrow> string \<Rightarrow> filesystem \<Rightarrow> error + 't" where
  "template_ParseFiles sys file fsys =
     (case os_Stat fsys file of
        Some (File bytes) \<Rightarrow>
          (case template_Parse sys bytes of
             Some t \<Rightarrow> Inr t
           | None \<Rightarrow> Inl (Err (''template: '' @ file @ '': parse error'')))
      | _ \<Rightarrow> Inl (Err (''open '' @ file @ '': no such file or directory'')))"

section \<open>ricer\<close>

text \<open>
  A Go function that returns \<^verbatim>\<open>(string, error)\<close> returns a pair here, and one that
  returns \<^verbatim>\<open>error\<close> an \<^typ>\<open>error option\<close> (\<open>None\<close> for \<^verbatim>\<open>nil\<close>), next to the
  world as it has left it.
\<close>

definition configHomeDirectory :: "'t sys \<Rightarrow> string \<times> error option" where
  "configHomeDirectory sys =
     (let configHome = getenv sys ''XDG_CONFIG_HOME''
      in if configHome = [] then
           (let homeDir = getenv sys ''HOME''
            in if homeDir = [] then
                 (case user_Current sys of
                    Inl err \<Rightarrow> ([], Some err)
                  | Inr usr_HomeDir \<Rightarrow>
                      (path_Join [path_Join [usr_HomeDir, ''/.config''], ''/ricer''], None))
               else (path_Join [path_Join [homeDir, ''/.config''], ''/ricer''], None))
         else (path_Join [configHome, ''/ricer''], None))"

definition templatesDirectory :: "'t sys \<Rightarrow> string \<times> error option" where
  "templatesDirectory sys =
     (case configHomeDirectory sys of
        (config, Some err) \<Rightarrow> ([], Some err)
      | (config, None) \<Rightarrow> (path_Join [config, ''/templates''], None))"

text \<open>The parameter \<open>config\<close> is the value of the flag \<^verbatim>\<open>-c\<close>.\<close>

definition parseConfiguration :: "'t sys \<Rightarrow> string \<Rightarrow> world \<Rightarrow> error option \<times> world" where
  "parseConfiguration sys config w =
     (if config = [] then
        (case configHomeDirectory sys of
           (configHome, Some err) \<Rightarrow> (Some err, w)
         | (configHome, None) \<Rightarrow> viper_ReadInConfig sys (ConfigSearch ''config'' configHome) w)
      else viper_ReadInConfig sys (ConfigFile config) w)"

text \<open>The template name \<^verbatim>\<open>handleTemplate\<close> derives from the file's path.\<close>

definition tmplName :: "string \<Rightarrow> string" where
  "tmplName file = filepath_Base (strings_TrimSuffix file (filepath_Ext file))"

definition newline :: string where
  "newline = [CHR 0x0A]"

text \<open>
  \<^verbatim>\<open>handleTemplate\<close>. The result of \<^verbatim>\<open>t.Execute\<close> is dropped, as in the source: the
  bytes it wrote are in the file, its error goes nowhere.
\<close>

definition handleTemplate :: "'t sys \<Rightarrow> string \<Rightarrow> world \<Rightarrow> error option \<times> world" where
  "handleTemplate sys file w =
     (case template_ParseFiles sys file (fs w) of
        Inl err \<Rightarrow> (Some (Err (''Could not parse template '' @ file)), w)
      | Inr t \<Rightarrow>
          (let m = viper_GetStringMap w (tmplName file @ ''.vars'');
               outputFile = viper_GetString w (tmplName file @ ''.output'')
           in if outputFile = [] then
                (Some (Err (''You have to define an output for template '' @ tmplName file)), w)
              else
                (case os_MkdirAll (path_Dir outputFile) (fs w) of
                   (Some err, fs1) \<Rightarrow>
                     (Some (Err (''[1] Could not create '' @ outputFile @ '' for template ''
                                   @ tmplName file)),
                      w\<lparr>fs := fs1\<rparr>)
                 | (None, fs1) \<Rightarrow>
                     (case os_Create outputFile fs1 of
                        (Some err, fs2) \<Rightarrow>
                          (Some (Err (''[2] Could not create '' @ outputFile @ '' for template ''
                                        @ tmplName file)),
                           w\<lparr>fs := fs2\<rparr>)
                      | (None, fs2) \<Rightarrow>
                          (None,
                           w\<lparr>fs := fs2(path_Clean outputFile \<mapsto>
                                        File (fst (template_Execute sys t m))),
                             stdout := stdout w @
                               [''Creating '' @ outputFile @ '' from template '' @ tmplName file
                                  @ ''.'' @ newline]\<rparr>)))))"

subsection \<open>main, up to the dispatch loop\<close>

text \<open>How the process ends: a panic with the error, or a return from \<^verbatim>\<open>main\<close>.\<close>

datatype outcome = Panic error | Exit0

text \<open>
  The first part of \<^verbatim>\<open>main\<close> is sequential: it ends the process (\<open>Inl\<close>), or it reaches
  the loop with the files \<^verbatim>\<open>filepath.Glob\<close> returned, its error dropped (\<open>Inr\<close>).
\<close>

definition main_setup :: "'t sys \<Rightarrow> string \<Rightarrow> world \<Rightarrow> (outcome \<times> world) + (string list \<times> world)" where
  "main_setup sys config w =
     (case parseConfiguration sys config w of
        (Some err, w1) \<Rightarrow> Inl (Panic err, w1)
      | (None, w1) \<Rightarrow>
          (case templatesDirectory sys of
             (tmplDir, Some err) \<Rightarrow>
               Inl (Exit0,
                    w1\<lparr>stdout := stdout w1 @
                      [''Templates directory does not exist, please create '' @ tmplDir
                         @ newline]\<rparr>)
           | (tmplDir, None) \<Rightarrow>
               Inr (fst (Glob sys (tmplDir @ ''/*.tmpl'') (fs w1)), w1)))"

subsection \<open>The dispatch loop and its goroutines\<close>

text \<open>
  Where \<^verbatim>\<open>main\<close> stands: at the head of the \<^verbatim>\<open>range\<close> loop, after the send on
  \<^verbatim>\<open>throttle\<close>, after \<^verbatim>\<open>wg.Add(1)\<close>, in \<^verbatim>\<open>wg.Wait()\<close>, or returned.
\<close>

datatype main_pc = Ranging | Sent | Added | Waiting | Returned

text \<open>
  Where a goroutine stands: before \<^verbatim>\<open>handleTemplate\<close> has returned, before the receive
  from \<^verbatim>\<open>throttle\<close>, before the deferred \<^verbatim>\<open>wg.Done()\<close>, or finished.
\<close>

datatype phase = Executing | Receiving | Deferred | Finished

record conf =
  pc :: main_pc
  files :: "string list"
  throttle :: nat
  wg :: int
  goroutines :: "(string \<times> phase) list"
  world :: world

definition init_conf :: "string list \<Rightarrow> world \<Rightarrow> conf" where
  "init_conf fl w =
     \<lparr>pc = Ranging, files = fl, throttle = 0, wg = 0, goroutines = [], world = w\<rparr>"

text \<open>\<^verbatim>\<open>fmt.Println(err)\<close> in the goroutine, when \<^verbatim>\<open>handleTemplate\<close> returned an error.\<close>

definition report :: "error option \<Rightarrow> world \<Rightarrow> world" where
  "report r w = (case r of None \<Rightarrow> w | Some err \<Rightarrow> w\<lparr>stdout := stdout w @ [Error err @ newline]\<rparr>)"

text \<open>
  One step of one thread. The channel \<^verbatim>\<open>throttle\<close> has capacity 4: a send needs room,
  a receive needs an element. \<^verbatim>\<open>wg.Wait()\<close> returns when the counter is zero. A call of
  \<^verbatim>\<open>handleTemplate\<close> is one step.
\<close>

inductive step :: "'t sys \<Rightarrow> conf \<Rightarrow> conf \<Rightarrow> bool" for sys :: "'t sys" where
  send: "pc c = Ranging \<Longrightarrow> files c = f # rest \<Longrightarrow> throttle c < 4 \<Longrightarrow>
         step sys c (c\<lparr>pc := Sent, throttle := throttle c + 1\<rparr>)"
| add: "pc c = Sent \<Longrightarrow> step sys c (c\<lparr>pc := Added, wg := wg c + 1\<rparr>)"
| spawn: "pc c = Added \<Longrightarrow> files c = f # rest \<Longrightarrow>
       step sys c (c\<lparr>pc := Ranging, files := rest,
                     goroutines := goroutines c @ [(f, Executing)]\<rparr>)"
| range_end: "pc c = Ranging \<Longrightarrow> files c = [] \<Longrightarrow> step sys c (c\<lparr>pc := Waiting\<rparr>)"
| wait: "pc c = Waiting \<Longrightarrow> wg c = 0 \<Longrightarrow> step sys c (c\<lparr>pc := Returned\<rparr>)"
| handle: "i < length (goroutines c) \<Longrightarrow> goroutines c ! i = (f, Executing) \<Longrightarrow>
           handleTemplate sys f (world c) = (r, w') \<Longrightarrow>
           step sys c (c\<lparr>goroutines := (goroutines c)[i := (f, Receiving)],
                         world := report r w'\<rparr>)"
| recv: "i < length (goroutines c) \<Longrightarrow> goroutines c ! i = (f, Receiving) \<Longrightarrow>
         throttle c > 0 \<Longrightarrow>
         step sys c (c\<lparr>goroutines := (goroutines c)[i := (f, Deferred)],
                       throttle := throttle c - 1\<rparr>)"
| wg_done: "i < length (goroutines c) \<Longrightarrow> goroutines c ! i = (f, Deferred) \<Longrightarrow>
         step sys c (c\<lparr>goroutines := (goroutines c)[i := (f, Finished)],
                       wg := wg c - 1\<rparr>)"

text \<open>
  \<^verbatim>\<open>main\<close> as a whole: the process ends in the first part, or the loop and the
  goroutines run, in any interleaving, until \<^verbatim>\<open>wg.Wait()\<close> has returned.
\<close>

inductive main :: "'t sys \<Rightarrow> string \<Rightarrow> world \<Rightarrow> outcome \<Rightarrow> world \<Rightarrow> bool"
  for sys :: "'t sys" and config :: string and w :: world where
  ended: "main_setup sys config w = Inl (out, w') \<Longrightarrow> main sys config w out w'"
| joined: "main_setup sys config w = Inr (fl, w1) \<Longrightarrow>
           (step sys)\<^sup>*\<^sup>* (init_conf fl w1) c \<Longrightarrow> pc c = Returned \<Longrightarrow>
           main sys config w Exit0 (world c)"

section \<open>The specification's template name\<close>

text \<open>
  The specification derives the template name as the file's base name with its extension
  stripped: first the base name, then the extension of that base name taken off. The
  source takes the extension off the whole path first and the base name of the rest
  (\<open>tmplName\<close>).
\<close>

definition spec_tmplName :: "string \<Rightarrow> string" where
  "spec_tmplName file =
     strings_TrimSuffix (filepath_Base file) (filepath_Ext (filepath_Base file))"

section \<open>Measures of the dispatch loop\<close>

text \<open>The render jobs executing: the goroutines whose \<^verbatim>\<open>handleTemplate\<close> has not returned.\<close>

definition executing :: "conf \<Rightarrow> nat" where
  "executing c = length (filter (\<lambda>g. snd g = Executing) (goroutines c))"

text \<open>The goroutines that still hold their element of \<^verbatim>\<open>throttle\<close>.\<close>

definition holding :: "(string \<times> phase) list \<Rightarrow> nat" where
  "holding gs = length (filter (\<lambda>g. snd g = Executing \<or> snd g = Receiving) gs)"

text \<open>The goroutines that have not called \<^verbatim>\<open>wg.Done()\<close> yet.\<close>

definition unfinished :: "(string \<times> phase) list \<Rightarrow> nat" where
  "unfinished gs = length (filter (\<lambda>g. snd g \<noteq> Finished) gs)"

text \<open>
  What holds of every configuration the loop over the files \<open>fl\<close> reaches: the channel
  holds one element for each goroutine that has not received yet, and one more between
  the send and the \<^verbatim>\<open>go\<close> statement; the wait group counts the goroutines that are not
  finished; the goroutines started and the files left are the files found.
\<close>

definition dispatch_inv :: "string list \<Rightarrow> conf \<Rightarrow> bool" where
  "dispatch_inv fl c =
     (throttle c = holding (goroutines c) + (if pc c = Sent \<or> pc c = Added then 1 else 0)
      \<and> throttle c \<le> 4
      \<and> wg c = int (unfinished (goroutines c)) + (if pc c = Added then 1 else 0)
      \<and> map fst (goroutines c) @ files c = fl
      \<and> (if pc c = Sent \<or> pc c = Added then files c \<noteq> []
          else if pc c = Ranging then True
          else files c = [])
      \<and> (if pc c = Returned then unfinished (goroutines c) = 0 else True))"

text \<open>What one goroutine does to the world: the call, and the report of its error.\<close>

definition job :: "'t sys \<Rightarrow> string \<Rightarrow> world \<Rightarrow> world" where
  "job sys f w = report (fst (handleTemplate sys f w)) (snd (handleTemplate sys f w))"

text \<open>
  The configuration after the schedule that lets every goroutine finish before the next
  one is started.
\<close>

definition joined_conf :: "'t sys \<Rightarrow> string list \<Rightarrow> world \<Rightarrow> conf" where
  "joined_conf sys fl w =
     \<lparr>pc = Returned, files = [], throttle = 0, wg = 0,
      goroutines = map (\<lambda>f. (f, Finished)) fl, world = fold (job sys) fl w\<rparr>"

section \<open>What a render job reads and writes\<close>












section \<open>Sample inputs\<close>

text \<open>
  A system whose templates are plain text: every file parses, and executing a template
  writes its text. \<^verbatim>\<open>XDG_CONFIG_HOME\<close> is \<^verbatim>\<open>/cfg\<close>, the configuration reads as empty,
  and no file matches a pattern.
\<close>

definition plain_sys :: "string sys" where
  "plain_sys =
     \<lparr>getenv = (\<lambda>name. if name = ''XDG_CONFIG_HOME'' then ''/cfg'' else []),
      user_Current = Inr ''/home/u'',
      ReadInConfig = (\<lambda>src fsys. Inr Map.empty),
      Glob = (\<lambda>pattern fsys. ([], None)),
      template_Parse = Some,
      template_Execute = (\<lambda>t m. (t, None))\<rparr>"

text \<open>
  The specification's scenario: the template \<^verbatim>\<open>shell.tmpl\<close>, with the output
  \<^verbatim>\<open>/tmp/out/shellrc\<close> configured for it and no variables.
\<close>

definition shell_world :: world where
  "shell_world =
     \<lparr>fs = [''/cfg/ricer/templates/shell.tmpl'' \<mapsto> File ''export EDITOR=vim''],
      stdout = [],
      viper = [''shell.output'' \<mapsto> CStr ''/tmp/out/shellrc'']\<rparr>"

text \<open>A world with nothing in it: no file, no directory, no configuration.\<close>

definition empty_world :: world where
  "empty_world = \<lparr>fs = Map.empty, stdout = [], viper = Map.empty\<rparr>"









section \<open>Properties\<close>

subsection \<open>The template name\<close>

text \<open>
  On a path that does not end in a slash and whose last element is more than an
  extension, the source's order of the two steps and the specification's give the same
  name.
\<close>

lemma ext_scan_append:
  "CHR ''/'' \<notin> set xs \<Longrightarrow> ys = [] \<or> hd ys = CHR ''/'' \<Longrightarrow>
   ext_scan (xs @ ys) acc = ext_scan xs acc"
proof (induction xs arbitrary: acc)
  case Nil
  then show ?case by (cases ys) (auto simp: IsPathSeparator_def)
next
  case (Cons c cs)
  then show ?case by (simp add: IsPathSeparator_def)
qed

lemma ext_scan_shape:
  "ext_scan xs acc = [] \<or> (\<exists>us vs. xs = us @ vs \<and> ext_scan xs acc = rev us @ acc)"
proof (induction xs arbitrary: acc)
  case Nil
  then show ?case by simp
next
  case (Cons c cs)
  show ?case
  proof (cases "IsPathSeparator c \<or> c = CHR ''.''")
    case True
    then have "ext_scan (c # cs) acc = [] \<or> ext_scan (c # cs) acc = rev [c] @ acc"
      by auto
    then show ?thesis by (metis append_Cons append_Nil)
  next
    case False
    then have eq: "ext_scan (c # cs) acc = ext_scan cs (c # acc)" by simp
    from Cons.IH [of "c # acc"] show ?thesis
    proof
      assume "ext_scan cs (c # acc) = []"
      with eq show ?thesis by simp
    next
      assume "\<exists>us vs. cs = us @ vs \<and> ext_scan cs (c # acc) = rev us @ c # acc"
      then obtain us vs where "cs = us @ vs" "ext_scan cs (c # acc) = rev us @ c # acc"
        by blast
      with eq have "c # cs = (c # us) @ vs \<and> ext_scan (c # cs) acc = rev (c # us) @ acc"
        by simp
      then show ?thesis by blast
    qed
  qed
qed

lemma Ext_is_suffix: "\<exists>stem. el = stem @ filepath_Ext el"
proof -
  from ext_scan_shape [of "rev el" "[]"] show ?thesis
  proof
    assume "ext_scan (rev el) [] = []"
    then show ?thesis by (simp add: filepath_Ext_def)
  next
    assume "\<exists>us vs. rev el = us @ vs \<and> ext_scan (rev el) [] = rev us @ []"
    then obtain us vs where "rev el = us @ vs" "ext_scan (rev el) [] = rev us" by auto
    then have "el = rev vs @ filepath_Ext el"
      by (metis filepath_Ext_def rev_append rev_rev_ident)
    then show ?thesis by blast
  qed
qed

lemma TrimSuffix_append: "strings_TrimSuffix (s @ t) t = s"
  by (simp add: strings_TrimSuffix_def strings_HasSuffix_def)

lemma Base_last_element:
  assumes "el \<noteq> []" and "CHR ''/'' \<notin> set el" and "d = [] \<or> last d = CHR ''/''"
  shows "filepath_Base (d @ el) = el"
proof -
  from assms(1,2) have hd: "\<not> IsPathSeparator (hd (rev el))"
    by (metis IsPathSeparator_def hd_in_set rev_is_Nil_conv set_rev)
  with assms(1) have "dropWhile IsPathSeparator (rev el @ rev d) = rev el @ rev d"
    by (cases "rev el") auto
  moreover have "takeWhile (\<lambda>c. \<not> IsPathSeparator c) (rev el @ rev d) = rev el"
  proof -
    have all: "\<forall>c \<in> set (rev el). \<not> IsPathSeparator c"
      using assms(2) by (auto simp: IsPathSeparator_def)
    have "takeWhile (\<lambda>c. \<not> IsPathSeparator c) (rev d) = []"
      using assms(3) by (cases "rev d") (auto simp: IsPathSeparator_def last_rev [symmetric] hd_rev)
    with all takeWhile_append2 [of "rev el" "\<lambda>c. \<not> IsPathSeparator c" "rev d"]
    show ?thesis by simp
  qed
  ultimately show ?thesis
    using assms(1) by (simp add: filepath_Base_def)
qed

lemma split_last_element:
  assumes "file \<noteq> []" and "last file \<noteq> CHR ''/''"
  obtains d el where "file = d @ el" "el \<noteq> []" "CHR ''/'' \<notin> set el"
    "d = [] \<or> last d = CHR ''/''"
proof -
  let ?el = "rev (takeWhile (\<lambda>c. c \<noteq> CHR ''/'') (rev file))"
  let ?d = "rev (dropWhile (\<lambda>c. c \<noteq> CHR ''/'') (rev file))"
  have 1: "file = ?d @ ?el"
    by (metis rev_append rev_rev_ident takeWhile_dropWhile_id)
  have 2: "?el \<noteq> []"
    using assms by (cases "rev file") (auto simp: last_rev [symmetric] hd_rev)
  have 3: "CHR ''/'' \<notin> set ?el"
    by (auto dest: set_takeWhileD)
  have 4: "?d = [] \<or> last ?d = CHR ''/''"
    using hd_dropWhile [of "\<lambda>c. c \<noteq> CHR ''/''" "rev file"] by (auto simp: last_rev)
  from 1 2 3 4 show ?thesis by (rule that)
qed

lemma tmplName_ordinary:
  assumes "file \<noteq> []" and "last file \<noteq> CHR ''/''"
    and "filepath_Ext file \<noteq> filepath_Base file"
  shows "tmplName file = spec_tmplName file"
proof -
  from assms(1,2) obtain d el where f: "file = d @ el" and el: "el \<noteq> []"
    "CHR ''/'' \<notin> set el" "d = [] \<or> last d = CHR ''/''"
    by (rule split_last_element)
  have base: "filepath_Base file = el"
    unfolding f using el by (rule Base_last_element)
  have "ext_scan (rev el @ rev d) [] = ext_scan (rev el) []"
    using el(2,3) by (intro ext_scan_append) (auto simp: hd_rev)
  then have ext: "filepath_Ext file = filepath_Ext el"
    by (simp add: filepath_Ext_def f)
  define ext where "ext = filepath_Ext el"
  obtain stem where stem: "el = stem @ ext"
    using Ext_is_suffix [of el] unfolding ext_def by blast
  from assms(3) base ext have "ext \<noteq> el" by (simp add: ext_def)
  with stem have ne: "stem \<noteq> []" by auto
  from stem el(2) have ns: "CHR ''/'' \<notin> set stem" by simp
  have e1: "filepath_Ext file = ext"
    by (simp add: ext ext_def)
  have f2: "file = (d @ stem) @ ext"
    by (simp add: f stem)
  have "strings_TrimSuffix file (filepath_Ext file) = strings_TrimSuffix file ext"
    by (simp only: e1)
  also have "\<dots> = strings_TrimSuffix ((d @ stem) @ ext) ext"
    by (simp only: f2)
  also have "\<dots> = d @ stem"
    by (rule TrimSuffix_append)
  finally have "tmplName file = stem"
    using Base_last_element [OF ne ns el(3)] by (simp add: tmplName_def)
  moreover have "strings_TrimSuffix (filepath_Base file) (filepath_Ext (filepath_Base file))
      = strings_TrimSuffix el ext"
    by (simp only: base ext_def)
  then have "strings_TrimSuffix (filepath_Base file) (filepath_Ext (filepath_Base file))
      = strings_TrimSuffix (stem @ ext) ext"
    by (simp only: stem [symmetric])
  then have "spec_tmplName file = stem"
    by (simp add: spec_tmplName_def TrimSuffix_append)
  ultimately show ?thesis by simp
qed

text \<open>
  Claim C6: for every template file path, the name used as the configuration key is the
  file's base name with its final extension stripped and all directory components
  removed. It fails for the file \<^verbatim>\<open>.tmpl\<close>, which the pattern \<^verbatim>\<open>*.tmpl\<close> matches: the
  extension is the whole file name, stripping it from the path leaves the directory with
  a trailing slash, and the base name of that is the name of the templates directory.
  The specification's name is the empty string there.
\<close>

theorem tmplName_dot_tmpl:
  "tmplName ''/home/u/.config/ricer/templates/.tmpl'' = ''templates''
   \<and> spec_tmplName ''/home/u/.config/ricer/templates/.tmpl'' = []"
  by (simp add: tmplName_def spec_tmplName_def filepath_Base_def strings_TrimSuffix_def
      strings_HasSuffix_def filepath_Ext_def IsPathSeparator_def)

subsection \<open>One render job\<close>

lemmas go_string_defs =
  tmplName_def filepath_Base_def filepath_Ext_def strings_TrimSuffix_def
  strings_HasSuffix_def IsPathSeparator_def

lemmas go_path_defs = path_Dir_def path_Split_def path_Clean_def

lemmas os_defs = os_Stat_def lookup_def dir_chain_def is_file_def

text \<open>
  Claim C2: when the configuration has no \<^verbatim>\<open><name>.output\<close>, or has the empty string
  there, the render job fails with an error naming the template, and the job creates or
  modifies no file and no directory: the world it returns is the world it was given.
  The error is the missing-output error for the template name when the template parsed,
  and the parse error for the template's file when it did not.
\<close>

theorem handleTemplate_missing_output:
  assumes "viper w (tmplName file @ ''.output'') = None
           \<or> viper w (tmplName file @ ''.output'') = Some (CStr [])"
  shows "handleTemplate sys file w =
           (Some (Err (case template_ParseFiles sys file (fs w) of
                         Inl err \<Rightarrow> ''Could not parse template '' @ file
                       | Inr t \<Rightarrow>
                           ''You have to define an output for template '' @ tmplName file)),
            w)"
proof -
  from assms have "viper_GetString w (tmplName file @ ''.output'') = []"
    by (auto simp: viper_GetString_def)
  then show ?thesis
    by (simp add: handleTemplate_def split: sum.splits)
qed

theorem handleTemplate_missing_output_witness:
  "handleTemplate plain_sys ''/cfg/ricer/templates/b.tmpl''
     \<lparr>fs = [''/cfg/ricer/templates/b.tmpl'' \<mapsto> File ''hello''], stdout = [],
      viper = Map.empty\<rparr>
   = (Some (Err ''You have to define an output for template b''),
      \<lparr>fs = [''/cfg/ricer/templates/b.tmpl'' \<mapsto> File ''hello''], stdout = [],
       viper = Map.empty\<rparr>)"
  using handleTemplate_missing_output [of
      "\<lparr>fs = [''/cfg/ricer/templates/b.tmpl'' \<mapsto> File ''hello''], stdout = [],
        viper = Map.empty\<rparr>"
      "''/cfg/ricer/templates/b.tmpl''" plain_sys]
  by (simp add: plain_sys_def template_ParseFiles_def os_defs go_path_defs go_string_defs)

text \<open>
  Claim C3: a render job that reaches the write step (the template parsed, the output
  path is configured, \<^verbatim>\<open>os.MkdirAll\<close> and \<^verbatim>\<open>os.Create\<close> succeeded) returns no error,
  and the destination file exists with the bytes the execution wrote, whatever error
  \<open>exec_err\<close> the execution ended with: that error is not returned.
\<close>

theorem handleTemplate_write_step:
  assumes "template_ParseFiles sys file (fs w) = Inr t"
    and "viper_GetString w (tmplName file @ ''.output'') = outputFile"
    and "outputFile \<noteq> []"
    and "os_MkdirAll (path_Dir outputFile) (fs w) = (None, fs1)"
    and "os_Create outputFile fs1 = (None, fs2)"
    and "template_Execute sys t (viper_GetStringMap w (tmplName file @ ''.vars''))
           = (bytes, exec_err)"
  shows "fst (handleTemplate sys file w) = None
         \<and> fs (snd (handleTemplate sys file w)) (path_Clean outputFile) = Some (File bytes)"
  using assms by (simp add: handleTemplate_def)

text \<open>
  The witness: an engine whose execution stops with an error after six bytes. The job
  succeeds and leaves the partial file.
\<close>

theorem handleTemplate_write_step_witness:
  "fst (handleTemplate
          (plain_sys\<lparr>template_Execute :=
             (\<lambda>t m. (take 6 t, Some (Err ''template: execution failed'')))\<rparr>)
          ''/cfg/ricer/templates/shell.tmpl'' shell_world) = None
   \<and> fs (snd (handleTemplate
          (plain_sys\<lparr>template_Execute :=
             (\<lambda>t m. (take 6 t, Some (Err ''template: execution failed'')))\<rparr>)
          ''/cfg/ricer/templates/shell.tmpl'' shell_world)) ''/tmp/out/shellrc''
       = Some (File ''export'')"
proof -
  let ?sys = "plain_sys\<lparr>template_Execute :=
      (\<lambda>t m. (take 6 t, Some (Err ''template: execution failed'')))\<rparr>"
  let ?file = "''/cfg/ricer/templates/shell.tmpl''"
  let ?fs1 = "(fs shell_world)(''/tmp'' \<mapsto> Dir, ''/tmp/out'' \<mapsto> Dir)"
  have name: "tmplName ?file = ''shell''"
    by (simp add: go_string_defs)
  have h1: "template_ParseFiles ?sys ?file (fs shell_world) = Inr ''export EDITOR=vim''"
    by (simp add: plain_sys_def shell_world_def template_ParseFiles_def os_defs go_path_defs)
  have h2: "viper_GetString shell_world (tmplName ?file @ ''.output'') = ''/tmp/out/shellrc''"
    by (simp add: name viper_GetString_def shell_world_def)
  have h3: "''/tmp/out/shellrc'' \<noteq> []"
    by simp
  have h4: "os_MkdirAll (path_Dir ''/tmp/out/shellrc'') (fs shell_world) = (None, ?fs1)"
    by (simp add: os_MkdirAll_def shell_world_def os_defs go_path_defs)
  have h5: "os_Create ''/tmp/out/shellrc'' ?fs1
              = (None, ?fs1(''/tmp/out/shellrc'' \<mapsto> File []))"
    by (simp add: os_Create_def shell_world_def os_defs go_path_defs)
  have h6: "template_Execute ?sys ''export EDITOR=vim''
              (viper_GetStringMap shell_world (tmplName ?file @ ''.vars''))
            = (''export'', Some (Err ''template: execution failed''))"
    by (simp add: plain_sys_def)
  have clean: "path_Clean ''/tmp/out/shellrc'' = ''/tmp/out/shellrc''"
    by (simp add: go_path_defs)
  from handleTemplate_write_step [OF h1 h2 h3 h4 h5 h6] show ?thesis
    by (simp only: clean)
qed

text \<open>
  Claim C5: when the configuration has no \<^verbatim>\<open><name>.vars\<close>, rendering proceeds with an
  empty variable mapping: if the other steps succeed, the job succeeds, and the file holds
  what executing the template against the empty mapping writes. The absence of the
  variables is not an error.
\<close>

theorem handleTemplate_no_vars:
  assumes "viper w (tmplName file @ ''.vars'') = None"
    and "template_ParseFiles sys file (fs w) = Inr t"
    and "viper_GetString w (tmplName file @ ''.output'') = outputFile"
    and "outputFile \<noteq> []"
    and "os_MkdirAll (path_Dir outputFile) (fs w) = (None, fs1)"
    and "os_Create outputFile fs1 = (None, fs2)"
  shows "handleTemplate sys file w =
           (None,
            w\<lparr>fs := fs2(path_Clean outputFile \<mapsto> File (fst (template_Execute sys t []))),
              stdout := stdout w @
                [''Creating '' @ outputFile @ '' from template '' @ tmplName file @ ''.''
                   @ newline]\<rparr>)"
  using assms by (simp add: handleTemplate_def viper_GetStringMap_def)

theorem handleTemplate_no_vars_witness:
  "handleTemplate plain_sys ''/cfg/ricer/templates/shell.tmpl'' shell_world =
     (None,
      shell_world
        \<lparr>fs := (fs shell_world)
           (''/tmp'' \<mapsto> Dir, ''/tmp/out'' \<mapsto> Dir,
            ''/tmp/out/shellrc'' \<mapsto> File ''export EDITOR=vim''),
         stdout := [''Creating /tmp/out/shellrc from template shell.'' @ newline]\<rparr>)"
proof -
  let ?file = "''/cfg/ricer/templates/shell.tmpl''"
  let ?fs1 = "(fs shell_world)(''/tmp'' \<mapsto> Dir, ''/tmp/out'' \<mapsto> Dir)"
  have name: "tmplName ?file = ''shell''"
    by (simp add: go_string_defs)
  have h1: "viper shell_world (tmplName ?file @ ''.vars'') = None"
    by (simp add: name shell_world_def)
  have h2: "template_ParseFiles plain_sys ?file (fs shell_world) = Inr ''export EDITOR=vim''"
    by (simp add: plain_sys_def shell_world_def template_ParseFiles_def os_defs go_path_defs)
  have h3: "viper_GetString shell_world (tmplName ?file @ ''.output'') = ''/tmp/out/shellrc''"
    by (simp add: name viper_GetString_def shell_world_def)
  have h4: "''/tmp/out/shellrc'' \<noteq> []"
    by simp
  have h5: "os_MkdirAll (path_Dir ''/tmp/out/shellrc'') (fs shell_world) = (None, ?fs1)"
    by (simp add: os_MkdirAll_def shell_world_def os_defs go_path_defs)
  have h6: "os_Create ''/tmp/out/shellrc'' ?fs1
              = (None, ?fs1(''/tmp/out/shellrc'' \<mapsto> File []))"
    by (simp add: os_Create_def shell_world_def os_defs go_path_defs)
  have clean: "path_Clean ''/tmp/out/shellrc'' = ''/tmp/out/shellrc''"
    by (simp add: go_path_defs)
  have exec: "fst (template_Execute plain_sys ''export EDITOR=vim'' []) = ''export EDITOR=vim''"
    by (simp add: plain_sys_def)
  from handleTemplate_no_vars [OF h1 h2 h3 h4 h5 h6] show ?thesis
    by (simp add: clean exec name shell_world_def)
qed

subsection \<open>main without goroutines\<close>

lemma parseConfiguration_world:
  "parseConfiguration sys config w = (r, w1) \<Longrightarrow> fs w1 = fs w \<and> stdout w1 = stdout w"
  by (auto simp: parseConfiguration_def viper_ReadInConfig_def
      split: if_splits prod.splits option.splits sum.splits)

lemma parseConfiguration_error:
  "parseConfiguration sys config w = (Some err, w1) \<Longrightarrow> w1 = w"
  by (auto simp: parseConfiguration_def viper_ReadInConfig_def
      split: if_splits prod.splits option.splits sum.splits)

text \<open>With no file to range over, \<^verbatim>\<open>main\<close> can only leave the loop, wait and return.\<close>

lemma no_files_reachable:
  assumes "(step sys)\<^sup>*\<^sup>* (init_conf [] w1) c"
  shows "c = init_conf [] w1 \<or> c = (init_conf [] w1)\<lparr>pc := Waiting\<rparr>
         \<or> c = (init_conf [] w1)\<lparr>pc := Returned\<rparr>"
  using assms
proof (induction rule: rtranclp_induct)
  case base
  then show ?case by simp
next
  case (step y z)
  from step.hyps(2) step.IH show ?case
    by (cases rule: step.cases) (auto simp: init_conf_def)
qed

lemma no_files_run:
  "(step sys)\<^sup>*\<^sup>* (init_conf [] w1) ((init_conf [] w1)\<lparr>pc := Returned\<rparr>)"
proof -
  have "step sys (init_conf [] w1) ((init_conf [] w1)\<lparr>pc := Waiting\<rparr>)"
    by (rule step.range_end) (simp_all add: init_conf_def)
  moreover have "step sys ((init_conf [] w1)\<lparr>pc := Waiting\<rparr>)
      ((init_conf [] w1)\<lparr>pc := Waiting\<rparr>\<lparr>pc := Returned\<rparr>)"
    by (rule step.wait) (simp_all add: init_conf_def)
  ultimately show ?thesis by simp
qed

lemma main_no_files:
  assumes "main_setup sys config w = Inr ([], w1)"
  shows "main sys config w out w' \<longleftrightarrow> out = Exit0 \<and> w' = w1"
proof
  assume "main sys config w out w'"
  then show "out = Exit0 \<and> w' = w1"
  proof (cases rule: main.cases)
    case ended
    with assms show ?thesis by simp
  next
    case (joined fl w2 c)
    with assms have "(step sys)\<^sup>*\<^sup>* (init_conf [] w1) c" by simp
    from no_files_reachable [OF this] joined show ?thesis
      by (auto simp: init_conf_def)
  qed
next
  assume "out = Exit0 \<and> w' = w1"
  moreover have "main sys config w Exit0 (world ((init_conf [] w1)\<lparr>pc := Returned\<rparr>))"
    by (rule main.joined [OF assms no_files_run]) simp
  ultimately show "main sys config w out w'" by (simp add: init_conf_def)
qed

lemma main_ended:
  assumes "main_setup sys config w = Inl (o1, w1)"
  shows "main sys config w out w' \<longleftrightarrow> out = o1 \<and> w' = w1"
  using assms by (auto elim: main.cases intro: main.ended)

text \<open>
  The guidance line is printed only when \<^verbatim>\<open>templatesDirectory\<close> returned an error, and
  then the path it returned is empty: the line names no path.
\<close>

lemma guidance_names_no_path:
  assumes "main_setup sys config w = Inl (Exit0, w')"
  shows "stdout w' = stdout w @ [''Templates directory does not exist, please create '' @ newline]"
proof -
  obtain r w1 where pc: "parseConfiguration sys config w = (r, w1)"
    by (cases "parseConfiguration sys config w")
  from assms pc have "stdout w' = stdout w1
      @ [''Templates directory does not exist, please create '' @ newline]"
    by (auto simp: main_setup_def templatesDirectory_def
        split: option.splits prod.splits)
  with parseConfiguration_world [OF pc] show ?thesis by simp
qed

text \<open>
  \<^verbatim>\<open>templatesDirectory\<close> returns no error when one of the two environment variables
  is set, whatever the file system holds.
\<close>

lemma templatesDirectory_no_error:
  "getenv sys ''XDG_CONFIG_HOME'' \<noteq> [] \<or> getenv sys ''HOME'' \<noteq> [] \<Longrightarrow>
   snd (templatesDirectory sys) = None"
  by (auto simp: templatesDirectory_def configHomeDirectory_def Let_def)

text \<open>
  Claim C1: when the templates directory does not exist, the run prints guidance naming
  the expected path, writes nothing, processes no template and exits cleanly. The source
  never looks whether the directory exists: with \<^verbatim>\<open>XDG_CONFIG_HOME=/cfg\<close> and an empty
  file system the run returns from \<^verbatim>\<open>main\<close> with nothing printed and nothing written.
\<close>

theorem main_missing_templates_dir:
  "main plain_sys [] empty_world out w'
     \<longleftrightarrow> out = Exit0 \<and> w' = \<lparr>fs = Map.empty, stdout = [], viper = Map.empty\<rparr>"
proof -
  have "main_setup plain_sys [] empty_world = Inr ([], empty_world)"
    by (simp add: main_setup_def parseConfiguration_def viper_ReadInConfig_def
        templatesDirectory_def configHomeDirectory_def plain_sys_def empty_world_def)
  from main_no_files [OF this] show ?thesis by (simp add: empty_world_def)
qed

text \<open>
  Claim C8: when loading the configuration fails, the process panics with the error,
  and nothing else happens: no template is located, dispatched or processed, and the
  world is as it was.
\<close>

theorem main_config_failure:
  assumes "parseConfiguration sys config w = (Some err, w1)"
  shows "main sys config w out w' \<longleftrightarrow> out = Panic err \<and> w' = w"
proof -
  from assms have "w1 = w" by (rule parseConfiguration_error)
  with assms have "main_setup sys config w = Inl (Panic err, w)"
    by (simp add: main_setup_def)
  then show ?thesis by (rule main_ended)
qed

theorem main_config_failure_witness:
  "main (plain_sys\<lparr>ReadInConfig := (\<lambda>src fsys. Inl (Err ''Config File Not Found''))\<rparr>)
     ''/etc/ricer.yml'' shell_world
     (Panic (Err ''Config File Not Found'')) shell_world"
proof -
  let ?sys = "plain_sys\<lparr>ReadInConfig := (\<lambda>src fsys. Inl (Err ''Config File Not Found''))\<rparr>"
  have "parseConfiguration ?sys ''/etc/ricer.yml'' shell_world
          = (Some (Err ''Config File Not Found''), shell_world)"
    by (simp add: parseConfiguration_def viper_ReadInConfig_def plain_sys_def)
  from main_config_failure [OF this] show ?thesis by simp
qed

text \<open>
  Claim C9: with a non-empty \<^verbatim>\<open>-c\<close> flag, the flag only names the configuration file
  that is read; the templates are still looked for in \<^verbatim>\<open><config-home>/ricer/templates\<close>,
  where the configuration home comes from \<^verbatim>\<open>XDG_CONFIG_HOME\<close>, or else from
  \<^verbatim>\<open>HOME\<close> with \<^verbatim>\<open>/.config\<close> appended.
\<close>

theorem templates_directory_with_flag:
  assumes "config \<noteq> []"
    and "ReadInConfig sys (ConfigFile config) (fs w) = Inr store"
    and "getenv sys ''XDG_CONFIG_HOME'' \<noteq> [] \<or> getenv sys ''HOME'' \<noteq> []"
  shows "main_setup sys config w =
           Inr (fst (Glob sys
                  (path_Join
                     [path_Join
                        [if getenv sys ''XDG_CONFIG_HOME'' \<noteq> []
                         then getenv sys ''XDG_CONFIG_HOME''
                         else path_Join [getenv sys ''HOME'', ''/.config''],
                         ''/ricer''],
                      ''/templates'']
                   @ ''/*.tmpl'')
                  (fs w)),
                w\<lparr>viper := store\<rparr>)"
  using assms
  by (auto simp: main_setup_def parseConfiguration_def viper_ReadInConfig_def
      templatesDirectory_def configHomeDirectory_def Let_def)

text \<open>
  The witness: the configuration file is \<^verbatim>\<open>/etc/ricer.yml\<close>, and the templates are
  taken from \<^verbatim>\<open>/cfg/ricer/templates\<close>, not from \<^verbatim>\<open>/etc\<close>.
\<close>

theorem templates_directory_with_flag_witness:
  "main_setup
     (plain_sys\<lparr>Glob := (\<lambda>pattern fsys.
        if pattern = ''/cfg/ricer/templates/*.tmpl''
        then ([''/cfg/ricer/templates/shell.tmpl''], None) else ([], None))\<rparr>)
     ''/etc/ricer.yml'' shell_world
   = Inr ([''/cfg/ricer/templates/shell.tmpl''], shell_world\<lparr>viper := Map.empty\<rparr>)"
proof -
  let ?sys = "plain_sys\<lparr>Glob := (\<lambda>pattern fsys.
        if pattern = ''/cfg/ricer/templates/*.tmpl''
        then ([''/cfg/ricer/templates/shell.tmpl''], None) else ([], None))\<rparr>"
  have h1: "''/etc/ricer.yml'' \<noteq> []"
    by simp
  have h2: "ReadInConfig ?sys (ConfigFile ''/etc/ricer.yml'') (fs shell_world) = Inr Map.empty"
    by (simp add: plain_sys_def)
  have h3: "getenv ?sys ''XDG_CONFIG_HOME'' \<noteq> [] \<or> getenv ?sys ''HOME'' \<noteq> []"
    by (simp add: plain_sys_def)
  from templates_directory_with_flag [OF h1 h2 h3] show ?thesis
    by (simp add: plain_sys_def go_path_defs)
qed

text \<open>
  Claim C10: an error of \<^verbatim>\<open>filepath.Glob\<close> is dropped. When it comes, with no match,
  the run is the run with no template found: \<^verbatim>\<open>main\<close> returns, and nothing was printed
  or written since the configuration was loaded.
\<close>

theorem main_glob_error:
  assumes "parseConfiguration sys config w = (None, w1)"
    and "templatesDirectory sys = (tmplDir, None)"
    and "Glob sys (tmplDir @ ''/*.tmpl'') (fs w1) = ([], Some err)"
  shows "(main sys config w out w' \<longleftrightarrow> out = Exit0 \<and> w' = w1)
         \<and> stdout w1 = stdout w \<and> fs w1 = fs w"
proof -
  from assms have "main_setup sys config w = Inr ([], w1)"
    by (simp add: main_setup_def)
  then have "main sys config w out w' \<longleftrightarrow> out = Exit0 \<and> w' = w1"
    by (rule main_no_files)
  with parseConfiguration_world [OF assms(1)] show ?thesis by simp
qed

text \<open>The witness: a configuration home with an unclosed bracket in its name.\<close>

theorem main_glob_error_witness:
  "main
     (plain_sys\<lparr>getenv := (\<lambda>name. if name = ''XDG_CONFIG_HOME'' then ''/c[fg'' else []),
        Glob := (\<lambda>pattern fsys.
          if pattern = ''/c[fg/ricer/templates/*.tmpl''
          then ([], Some (Err ''syntax error in pattern'')) else ([], None))\<rparr>)
     [] empty_world Exit0 empty_world"
proof -
  let ?sys = "plain_sys\<lparr>getenv := (\<lambda>name. if name = ''XDG_CONFIG_HOME'' then ''/c[fg'' else []),
        Glob := (\<lambda>pattern fsys.
          if pattern = ''/c[fg/ricer/templates/*.tmpl''
          then ([], Some (Err ''syntax error in pattern'')) else ([], None))\<rparr>"
  have h1: "parseConfiguration ?sys [] empty_world = (None, empty_world)"
    by (simp add: parseConfiguration_def viper_ReadInConfig_def configHomeDirectory_def
        plain_sys_def empty_world_def)
  have h2: "templatesDirectory ?sys = (''/c[fg/ricer/templates'', None)"
    by (simp add: templatesDirectory_def configHomeDirectory_def plain_sys_def go_path_defs)
  have h3: "Glob ?sys (''/c[fg/ricer/templates'' @ ''/*.tmpl'') (fs empty_world)
              = ([], Some (Err ''syntax error in pattern''))"
    by (simp add: plain_sys_def)
  from main_glob_error [OF h1 h2 h3] show ?thesis by simp
qed

subsection \<open>The throttle and the join\<close>

lemma filter_update_count:
  "i < length xs \<Longrightarrow>
   length (filter P (xs[i := x])) + (if P (xs ! i) then 1 else 0)
     = length (filter P xs) + (if P x then 1 else 0)"
proof (induction xs arbitrary: i)
  case Nil
  then show ?case by simp
next
  case (Cons a xs)
  show ?case
  proof (cases i)
    case 0
    then show ?thesis by simp
  next
    case (Suc j)
    with Cons.prems have "j < length xs" by simp
    from Cons.IH [OF this] Suc show ?thesis by simp
  qed
qed

lemma holding_update:
  "i < length gs \<Longrightarrow>
   holding (gs[i := (f, p)])
     + (if snd (gs ! i) = Executing \<or> snd (gs ! i) = Receiving then 1 else 0)
   = holding gs + (if p = Executing \<or> p = Receiving then 1 else 0)"
  unfolding holding_def
  using filter_update_count [of i gs "\<lambda>g. snd g = Executing \<or> snd g = Receiving" "(f, p)"]
  by simp

lemma unfinished_update:
  "i < length gs \<Longrightarrow>
   unfinished (gs[i := (f, p)]) + (if snd (gs ! i) \<noteq> Finished then 1 else 0)
   = unfinished gs + (if p \<noteq> Finished then 1 else 0)"
  unfolding unfinished_def
  using filter_update_count [of i gs "\<lambda>g. snd g \<noteq> Finished" "(f, p)"]
  by simp

lemma map_fst_update:
  "i < length gs \<Longrightarrow> gs ! i = (f, p) \<Longrightarrow> map fst (gs[i := (f, q)]) = map fst gs"
  by (simp add: map_update list_update_same_conv)

lemma dispatch_inv_init: "dispatch_inv fl (init_conf fl w)"
  by (simp add: dispatch_inv_def init_conf_def holding_def unfinished_def)

lemma dispatch_inv_step:
  assumes "step sys c c'" and "dispatch_inv fl c"
  shows "dispatch_inv fl c'"
  using assms
proof (cases rule: step.cases)
  case (send f rest)
  with assms(2) show ?thesis by (auto simp: dispatch_inv_def)
next
  case add
  with assms(2) show ?thesis by (auto simp: dispatch_inv_def)
next
  case (spawn f rest)
  with assms(2) show ?thesis by (auto simp: dispatch_inv_def holding_def unfinished_def)
next
  case range_end
  with assms(2) show ?thesis by (auto simp: dispatch_inv_def)
next
  case wait
  with assms(2) show ?thesis by (auto simp: dispatch_inv_def)
next
  case (handle i f r w')
  with assms(2) holding_update [of i "goroutines c" f Receiving]
    unfinished_update [of i "goroutines c" f Receiving]
  show ?thesis by (auto simp: dispatch_inv_def map_fst_update)
next
  case (recv i f)
  with assms(2) holding_update [of i "goroutines c" f Deferred]
    unfinished_update [of i "goroutines c" f Deferred]
  show ?thesis by (auto simp: dispatch_inv_def map_fst_update)
next
  case (wg_done i f)
  with assms(2) holding_update [of i "goroutines c" f Finished]
    unfinished_update [of i "goroutines c" f Finished]
  show ?thesis by (auto simp: dispatch_inv_def map_fst_update split: if_splits)
qed

lemma dispatch_inv_reachable:
  "(step sys)\<^sup>*\<^sup>* (init_conf fl w) c \<Longrightarrow> dispatch_inv fl c"
  by (induction rule: rtranclp_induct) (auto intro: dispatch_inv_init dispatch_inv_step)

text \<open>
  The counter of the wait group never drops below zero, so \<^verbatim>\<open>wg.Done()\<close> never
  panics.
\<close>

lemma wg_not_negative:
  "(step sys)\<^sup>*\<^sup>* (init_conf fl w) c \<Longrightarrow> 0 \<le> wg c"
  by (drule dispatch_inv_reachable) (simp add: dispatch_inv_def)

lemma executing_le_holding: "length (filter (\<lambda>g. snd g = Executing) gs) \<le> holding gs"
  unfolding holding_def by (induction gs) auto

lemma unfinished_0: "unfinished gs = 0 \<Longrightarrow> g \<in> set gs \<Longrightarrow> snd g = Finished"
  unfolding unfinished_def by (auto simp: filter_empty_conv)

text \<open>The schedule that runs one goroutine to its end before the next send.\<close>

lemma one_goroutine:
  "(step sys)\<^sup>*\<^sup>*
     \<lparr>pc = Ranging, files = f # rest, throttle = 0, wg = 0, goroutines = gs, world = w\<rparr>
     \<lparr>pc = Ranging, files = rest, throttle = 0, wg = 0,
      goroutines = gs @ [(f, Finished)], world = job sys f w\<rparr>"
proof -
  let ?c0 = "\<lparr>pc = Ranging, files = f # rest, throttle = 0, wg = 0,
              goroutines = gs, world = w\<rparr>"
  let ?c1 = "\<lparr>pc = Sent, files = f # rest, throttle = 1, wg = 0,
              goroutines = gs, world = w\<rparr>"
  let ?c2 = "\<lparr>pc = Added, files = f # rest, throttle = 1, wg = 1,
              goroutines = gs, world = w\<rparr>"
  let ?c3 = "\<lparr>pc = Ranging, files = rest, throttle = 1, wg = 1,
              goroutines = gs @ [(f, Executing)], world = w\<rparr>"
  let ?c4 = "\<lparr>pc = Ranging, files = rest, throttle = 1, wg = 1,
              goroutines = gs @ [(f, Receiving)], world = job sys f w\<rparr>"
  let ?c5 = "\<lparr>pc = Ranging, files = rest, throttle = 0, wg = 1,
              goroutines = gs @ [(f, Deferred)], world = job sys f w\<rparr>"
  let ?c6 = "\<lparr>pc = Ranging, files = rest, throttle = 0, wg = 0,
              goroutines = gs @ [(f, Finished)], world = job sys f w\<rparr>"
  have "step sys ?c0 ?c1"
    using step.send [of ?c0 f rest sys] by simp
  moreover have "step sys ?c1 ?c2"
    using step.add [of ?c1 sys] by simp
  moreover have "step sys ?c2 ?c3"
    using step.spawn [of ?c2 f rest sys] by simp
  moreover have "step sys ?c3 ?c4"
    using step.handle [of "length gs" ?c3 f sys "fst (handleTemplate sys f w)"
        "snd (handleTemplate sys f w)"]
    by (simp add: job_def)
  moreover have "step sys ?c4 ?c5"
    using step.recv [of "length gs" ?c4 f sys] by simp
  moreover have "step sys ?c5 ?c6"
    using step.wg_done [of "length gs" ?c5 f sys] by simp
  ultimately show ?thesis
    by (meson rtranclp.rtrancl_into_rtrancl rtranclp.rtrancl_refl)
qed

lemma all_goroutines:
  "(step sys)\<^sup>*\<^sup>*
     \<lparr>pc = Ranging, files = fl, throttle = 0, wg = 0, goroutines = gs, world = w\<rparr>
     \<lparr>pc = Ranging, files = [], throttle = 0, wg = 0,
      goroutines = gs @ map (\<lambda>f. (f, Finished)) fl, world = fold (job sys) fl w\<rparr>"
proof (induction fl arbitrary: gs w)
  case Nil
  then show ?case by simp
next
  case (Cons f rest)
  from one_goroutine [of sys f rest gs w] Cons.IH [of "gs @ [(f, Finished)]" "job sys f w"]
  show ?case by simp
qed

lemma run_in_order: "(step sys)\<^sup>*\<^sup>* (init_conf fl w) (joined_conf sys fl w)"
proof -
  let ?c = "\<lparr>pc = Ranging, files = [], throttle = 0, wg = 0,
      goroutines = map (\<lambda>f. (f, Finished)) fl, world = fold (job sys) fl w\<rparr>"
  have "(step sys)\<^sup>*\<^sup>* (init_conf fl w) ?c"
    using all_goroutines [of sys fl "[]" w] by (simp add: init_conf_def)
  moreover have "step sys ?c (?c\<lparr>pc := Waiting\<rparr>)"
    by (rule step.range_end) simp_all
  moreover have "step sys (?c\<lparr>pc := Waiting\<rparr>) (?c\<lparr>pc := Waiting\<rparr>\<lparr>pc := Returned\<rparr>)"
    by (rule step.wait) simp_all
  ultimately have "(step sys)\<^sup>*\<^sup>* (init_conf fl w) (?c\<lparr>pc := Waiting\<rparr>\<lparr>pc := Returned\<rparr>)"
    by (meson rtranclp.rtrancl_into_rtrancl)
  then show ?thesis by (simp add: joined_conf_def)
qed

text \<open>
  Claim C4: for any list \<open>fl\<close> of template files, in every configuration the loop and
  its goroutines reach, in any interleaving, at most 4 render jobs are executing; and when
  \<^verbatim>\<open>wg.Wait()\<close> has returned, a goroutine was started for every file, in order, and every
  one of them has finished.
\<close>

theorem throttle_bound_and_join:
  assumes "(step sys)\<^sup>*\<^sup>* (init_conf fl w) c"
  shows "executing c \<le> 4
         \<and> (pc c = Returned \<longrightarrow>
              map fst (goroutines c) = fl \<and> (\<forall>g \<in> set (goroutines c). snd g = Finished))"
proof -
  from assms have inv: "dispatch_inv fl c"
    by (rule dispatch_inv_reachable)
  have "executing c \<le> holding (goroutines c)"
    unfolding executing_def by (rule executing_le_holding)
  with inv have "executing c \<le> 4"
    by (simp add: dispatch_inv_def split: if_splits)
  moreover from inv have "pc c = Returned \<longrightarrow>
      map fst (goroutines c) = fl \<and> (\<forall>g \<in> set (goroutines c). snd g = Finished)"
    by (auto simp: dispatch_inv_def dest: unfinished_0 split: if_splits)
  ultimately show ?thesis by simp
qed

text \<open>The witness: a run over five template files, to the return of \<^verbatim>\<open>wg.Wait()\<close>.\<close>

theorem throttle_bound_and_join_witness:
  "executing (joined_conf plain_sys [''a.tmpl'', ''b.tmpl'', ''c.tmpl'', ''d.tmpl'', ''e.tmpl'']
       empty_world) \<le> 4
   \<and> pc (joined_conf plain_sys [''a.tmpl'', ''b.tmpl'', ''c.tmpl'', ''d.tmpl'', ''e.tmpl'']
       empty_world) = Returned
   \<and> goroutines (joined_conf plain_sys
       [''a.tmpl'', ''b.tmpl'', ''c.tmpl'', ''d.tmpl'', ''e.tmpl''] empty_world)
     = [(''a.tmpl'', Finished), (''b.tmpl'', Finished), (''c.tmpl'', Finished),
        (''d.tmpl'', Finished), (''e.tmpl'', Finished)]"
  using throttle_bound_and_join [OF run_in_order, of plain_sys
      "[''a.tmpl'', ''b.tmpl'', ''c.tmpl'', ''d.tmpl'', ''e.tmpl'']" empty_world]
  by (simp add: joined_conf_def)

subsection \<open>Running the tool twice\<close>







































end
